theory Spec2Isabelle
  imports Main "HOL-Library.Sublist"
begin

section \<open>Strings: the part of \<open>String.prototype.replace\<close> that \<open>setMarkets\<close> uses\<close>

text \<open>
  \<open>setMarkets\<close> computes its endpoint with \<^verbatim>\<open>URL.replace('{market}', market)\<close>: both
  arguments are strings. With a string pattern, \<open>replace\<close> looks for the first occurrence
  of the pattern and splices in the expansion of the replacement text, in which
  \<^verbatim>\<open>$$\<close> stands for a dollar sign, \<^verbatim>\<open>$&\<close> for the matched text, \<^verbatim>\<open>$`\<close> for the text before
  the match and \<^verbatim>\<open>$'\<close> for the text after it. A string pattern has no capture groups, so
  \<^verbatim>\<open>$1\<close>, \<^verbatim>\<open>$<name>\<close> and a dollar sign before any other character are copied as they are.
\<close>

fun splitAtFirst :: "string \<Rightarrow> string \<Rightarrow> (string \<times> string) option" where
  "splitAtFirst p [] = (if p = [] then Some ([], []) else None)"
| "splitAtFirst p (c # cs) =
     (if take (length p) (c # cs) = p then Some ([], drop (length p) (c # cs))
      else case splitAtFirst p cs of
             None \<Rightarrow> None
           | Some (b, a) \<Rightarrow> Some (c # b, a))"

fun GetSubstitution :: "string \<Rightarrow> string \<Rightarrow> string \<Rightarrow> string \<Rightarrow> string" where
  "GetSubstitution matched pre post [] = []"
| "GetSubstitution matched pre post [c] = [c]"
| "GetSubstitution matched pre post (c # c' # rest) =
     (if c = CHR ''$'' then
        (if c' = CHR ''$'' then CHR ''$'' # GetSubstitution matched pre post rest
         else if c' = CHR ''&'' then matched @ GetSubstitution matched pre post rest
         else if c' = CHR 0x60 then pre @ GetSubstitution matched pre post rest
         else if c' = CHR 0x27 then post @ GetSubstitution matched pre post rest
         else c # GetSubstitution matched pre post (c' # rest))
      else c # GetSubstitution matched pre post (c' # rest))"

definition replace :: "string \<Rightarrow> string \<Rightarrow> string \<Rightarrow> string" where
  "replace str searchValue replaceValue =
     (case splitAtFirst searchValue str of
        None \<Rightarrow> str
      | Some (b, a) \<Rightarrow> b @ GetSubstitution searchValue b a replaceValue @ a)"

text \<open>The decimal text of an integer, as a template literal renders a whole number.\<close>

fun digitsOf :: "nat \<Rightarrow> string" where
  "digitsOf n =
     (if n < 10 then [char_of (48 + n)]
      else digitsOf (n div 10) @ [char_of (48 + n mod 10)])"

definition numberToString :: "int \<Rightarrow> string" where
  "numberToString i = (if i < 0 then CHR ''-'' # digitsOf (nat (- i)) else digitsOf (nat i))"

section \<open>Data model (\<open>types/models.ts\<close>, \<open>column.ts\<close>)\<close>

text \<open>
  A value of type \<open>any\<close>: the right operand of a filter, a cell of a response row, the body
  of an error response. Numbers are whole numbers here.
\<close>

datatype jsval =
    JUndefined
  | JNull
  | JBool bool
  | JNum int
  | JStr string
  | JArr "jsval list"
  | JObj "(string \<times> jsval) list"

datatype FilterOperation =
    F_greater | F_egreater | F_less | F_eless | F_equal | F_nequal
  | F_in_range | F_not_in_range | F_empty | F_nempty
  | F_crosses | F_crosses_above | F_crosses_below
  | F_match | F_nmatch | F_smatch | F_has | F_has_none_of
  | F_above_pct | F_below_pct | F_in_range_pct | F_not_in_range_pct
  | F_in_day_range | F_in_week_range | F_in_month_range

record FilterOperationDict =
  left :: string
  operation :: FilterOperation
  right :: "jsval option"

datatype SortOrder = asc | desc

record SortByDict =
  sortBy :: string
  sortOrder :: SortOrder
  nullsFirst :: "bool option"

text \<open>
  \<open>SymbolsDict\<close>: the field \<open>query\<close> of the interface (an object holding the one array
  \<open>types\<close>) is \<open>query_types\<close> here, since \<open>query\<close> is also the name of the builder's field.
\<close>

record SymbolsDict =
  query_types :: "string list option"
  tickers :: "string list option"
  symbolset :: "string list option"
  watchlist :: "int option"
  groups :: "(string \<times> string) list option"

datatype LogicalOperator = L_and | L_or

text \<open>
  \<open>OperationDict\<close> is the wrapper \<^verbatim>\<open>{operation: ...}\<close>, \<open>ExpressionDict\<close> the wrapper
  \<^verbatim>\<open>{expression: ...}\<close>, and \<open>OperationComparisonDict\<close> the node \<^verbatim>\<open>{operator, operands}\<close>.
  An operand is one of the two wrappers.
\<close>

datatype OperationDict = OperationDict (op_operation: OperationComparisonDict)
and OperationComparisonDict =
  OperationComparisonDict (operator: LogicalOperator) (operands: "Operand list")
and Operand =
    OperandOperation OperationDict
  | OperandExpression (expression: FilterOperationDict)

datatype ScreenerPreset = index_components_market_pages | pre_market_gainers

datatype PriceConversion = to_symbol bool | to_currency string

text \<open>
  \<open>QueryDict\<close>. The fields \<open>filter\<close>, \<open>sort\<close> and \<open>range\<close> carry a suffix, their names being
  taken in HOL. Two of the fields hold objects that the builder updates in place, the
  \<open>symbols\<close> object and the \<open>range\<close> array; the record is parametric in how these are held:
  by address in the store, or by value in a snapshot of the whole document.
\<close>

record ('s, 'r) QueryDict =
  markets :: "string list option"
  symbols :: "'s option"
  options :: "(string \<times> jsval) list option"
  columns :: "string list option"
  filter_f :: "FilterOperationDict list option"
  filter2 :: "OperationComparisonDict option"
  sort_f :: "SortByDict option"
  range_f :: "'r option"
  ignore_unknown_fields :: "bool option"
  preset :: "ScreenerPreset option"
  price_conversion :: "PriceConversion option"

record ScreenerRowDict =
  row_s :: string
  row_d :: "jsval list"

text \<open>
  \<open>ScreenerDict\<close> and \<open>ScreenerDataResult\<close> have the same two fields, \<open>totalCount\<close> and \<open>data\<close>,
  and differ in what \<open>data\<close> holds: the raw rows, which the response may lack, or the
  named records.
\<close>

record 'd Screener =
  totalCount :: int
  data :: 'd

type_synonym ScreenerDict = "ScreenerRowDict list option Screener"
type_synonym ScreenerDataResult = "(string \<rightharpoonup> jsval) list Screener"

datatype cookies = CookieString string | CookieDict "(string \<times> string) list"

record RequestConfig =
  headers :: "(string \<times> string) list option"
  timeout :: "int option"
  cookies :: "cookies option"
  other_keys :: "(string \<times> jsval) list"

record Column =
  name :: string

datatype ColumnOrString = ColumnObj Column | ColumnName string

section \<open>The store\<close>

text \<open>
  The builder is a mutable object: its methods assign to \<open>this.url\<close> and to the fields of
  the document \<open>this.query\<close>, and three of them write into objects that the document only
  refers to (\<open>this.query.range[1] = limit\<close>, \<open>this.query.symbols.tickers = ...\<close>). What such
  a write changes depends on who else holds the object, so builders, documents,
  \<open>symbols\<close> objects and \<open>range\<close> arrays live in a store, at addresses, and a method
  takes the address of \<open>this\<close> and the store and returns the store. \<open>fresh\<close> is the next
  address that was never handed out. Arrays and objects that no method writes into once
  they are built (\<open>markets\<close>, \<open>columns\<close>, the filters, \<open>sort\<close>) are values inside the
  document's cell.
\<close>

type_synonym addr = nat

record QueryObj =
  query :: addr
  url :: string

record Store =
  queries :: "addr \<Rightarrow> QueryObj"
  dicts :: "addr \<Rightarrow> (addr, addr) QueryDict"
  symbolsObjs :: "addr \<Rightarrow> SymbolsDict"
  rangeArrays :: "addr \<Rightarrow> int \<times> int"
  fresh :: addr

text \<open>
  The module constant \<open>DEFAULT_RANGE\<close> is an array as well, and an exported one: it sits at
  a fixed address of the store, where the module's initialisation puts \<open>[0, 50]\<close>.
\<close>

definition DEFAULT_RANGE :: addr where
  "DEFAULT_RANGE = 0"

definition URL :: string where
  "URL = ''https://scanner.tradingview.com/{market}/scan''"

definition HEADERS :: "(string \<times> string) list" where
  "HEADERS =
     [(''authority'', ''scanner.tradingview.com''),
      (''sec-ch-ua'',
         [CHR 0x22] @ '' Not A;Brand'' @ [CHR 0x22] @ '';v='' @ [CHR 0x22] @ ''99'' @ [CHR 0x22]
         @ '', '' @ [CHR 0x22] @ ''Chromium'' @ [CHR 0x22] @ '';v='' @ [CHR 0x22] @ ''98''
         @ [CHR 0x22] @ '', '' @ [CHR 0x22] @ ''Google Chrome'' @ [CHR 0x22] @ '';v=''
         @ [CHR 0x22] @ ''98'' @ [CHR 0x22]),
      (''accept'', ''text/plain, */*; q=0.01''),
      (''content-type'', ''application/x-www-form-urlencoded; charset=UTF-8''),
      (''sec-ch-ua-mobile'', ''?0''),
      (''user-agent'',
         ''Mozilla/5.0 (Windows NT 10.0; Win64; x64) AppleWebKit/537.36 (KHTML, like Gecko)''
         @ ''Chrome/98.0.4758.102 Safari/537.36''),
      (''sec-ch-ua-platform'', [CHR 0x22] @ ''Windows'' @ [CHR 0x22]),
      (''origin'', ''https://www.tradingview.com''),
      (''sec-fetch-site'', ''same-site''),
      (''sec-fetch-mode'', ''cors''),
      (''sec-fetch-dest'', ''empty''),
      (''referer'', ''https://www.tradingview.com/''),
      (''accept-language'', ''en-US,en;q=0.9,it;q=0.8'')]"

definition initialStore :: Store where
  "initialStore =
     \<lparr>queries = (\<lambda>_. \<lparr>query = 0, url = []\<rparr>),
      dicts = (\<lambda>_. \<lparr>markets = None, symbols = None, options = None, columns = None,
                      filter_f = None, filter2 = None, sort_f = None, range_f = None,
                      ignore_unknown_fields = None, preset = None, price_conversion = None\<rparr>),
      symbolsObjs = (\<lambda>_. \<lparr>query_types = None, tickers = None, symbolset = None,
                            watchlist = None, groups = None\<rparr>),
      rangeArrays = (\<lambda>_. (0, 0))(DEFAULT_RANGE := (0, 50)),
      fresh = Suc DEFAULT_RANGE\<rparr>"

subsection \<open>Allocation and the elementary writes\<close>

definition newRange :: "int \<times> int \<Rightarrow> Store \<Rightarrow> addr \<times> Store" where
  "newRange r st =
     (fresh st, st\<lparr>rangeArrays := (rangeArrays st)(fresh st := r), fresh := Suc (fresh st)\<rparr>)"

definition newSymbols :: "SymbolsDict \<Rightarrow> Store \<Rightarrow> addr \<times> Store" where
  "newSymbols s st =
     (fresh st, st\<lparr>symbolsObjs := (symbolsObjs st)(fresh st := s), fresh := Suc (fresh st)\<rparr>)"

definition newDict :: "(addr, addr) QueryDict \<Rightarrow> Store \<Rightarrow> addr \<times> Store" where
  "newDict d st =
     (fresh st, st\<lparr>dicts := (dicts st)(fresh st := d), fresh := Suc (fresh st)\<rparr>)"

definition newQueryObj :: "QueryObj \<Rightarrow> Store \<Rightarrow> addr \<times> Store" where
  "newQueryObj q st =
     (fresh st, st\<lparr>queries := (queries st)(fresh st := q), fresh := Suc (fresh st)\<rparr>)"

text \<open>\<open>this.query\<close>, and an assignment to one of its fields.\<close>

definition thisQuery :: "Store \<Rightarrow> addr \<Rightarrow> (addr, addr) QueryDict" where
  "thisQuery st this = dicts st (query (queries st this))"

definition setQueryField ::
  "addr \<Rightarrow> ((addr, addr) QueryDict \<Rightarrow> (addr, addr) QueryDict) \<Rightarrow> Store \<Rightarrow> Store" where
  "setQueryField this f st =
     st\<lparr>dicts := (dicts st)(query (queries st this) := f (thisQuery st this))\<rparr>"

definition setUrl :: "addr \<Rightarrow> string \<Rightarrow> Store \<Rightarrow> Store" where
  "setUrl this u st = st\<lparr>queries := (queries st)(this := (queries st this)\<lparr>url := u\<rparr>)\<rparr>"

text \<open>\<^verbatim>\<open>if (!this.query.range) { this.query.range = [...DEFAULT_RANGE]; }\<close>\<close>

definition ensureRange :: "addr \<Rightarrow> Store \<Rightarrow> Store" where
  "ensureRange this st =
     (case range_f (thisQuery st this) of
        Some _ \<Rightarrow> st
      | None \<Rightarrow>
          (let (a, st1) = newRange (rangeArrays st DEFAULT_RANGE) st
           in setQueryField this (\<lambda>d. d\<lparr>range_f := Some a\<rparr>) st1))"

text \<open>\<^verbatim>\<open>if (!this.query.symbols) { this.query.symbols = {}; }\<close>\<close>

definition ensureSymbols :: "addr \<Rightarrow> Store \<Rightarrow> Store" where
  "ensureSymbols this st =
     (case symbols (thisQuery st this) of
        Some _ \<Rightarrow> st
      | None \<Rightarrow>
          (let (a, st1) = newSymbols \<lparr>query_types = None, tickers = None, symbolset = None,
                                      watchlist = None, groups = None\<rparr> st
           in setQueryField this (\<lambda>d. d\<lparr>symbols := Some a\<rparr>) st1))"

section \<open>\<open>And\<close>, \<open>Or\<close> (\<open>query.ts\<close>)\<close>

text \<open>
  An argument of \<open>And\<close> and \<open>Or\<close> is a \<open>FilterOperationDict\<close> or an \<open>OperationDict\<close>; the code
  tells them apart by the key \<open>left\<close>, which only the first has. The first is wrapped as
  \<^verbatim>\<open>{expression: expr}\<close>, the second is pushed as it is. No branch of the function throws.
\<close>

datatype Expr = Filter FilterOperationDict | Operation OperationDict

fun pushOperand :: "Expr \<Rightarrow> Operand" where
  "pushOperand (Filter expr) = OperandExpression expr"
| "pushOperand (Operation expr) = OperandOperation expr"

definition implAndOrChaining :: "Expr list \<Rightarrow> LogicalOperator \<Rightarrow> OperationDict" where
  "implAndOrChaining expressions oper =
     OperationDict (OperationComparisonDict oper (map pushOperand expressions))"

definition And :: "Expr list \<Rightarrow> OperationDict" where
  "And expressions = implAndOrChaining expressions L_and"

definition Or :: "Expr list \<Rightarrow> OperationDict" where
  "Or expressions = implAndOrChaining expressions L_or"

section \<open>The builder \<open>Query\<close> (\<open>query.ts\<close>)\<close>

text \<open>The constructor: a fresh document with the defaults, and the endpoint of \<open>america\<close>.\<close>

definition Query_new :: "Store \<Rightarrow> addr \<times> Store" where
  "Query_new st =
     (let (s, st1) = newSymbols \<lparr>query_types = Some [], tickers = Some [], symbolset = None,
                                 watchlist = None, groups = None\<rparr> st;
          (r, st2) = newRange (rangeArrays st1 DEFAULT_RANGE) st1;
          (d, st3) = newDict
             \<lparr>markets = Some [''america''],
              symbols = Some s,
              options = Some [(''lang'', JStr ''en'')],
              columns = Some [''name'', ''close'', ''volume'', ''market_cap_basic''],
              filter_f = None,
              filter2 = None,
              sort_f = Some \<lparr>sortBy = ''Value.Traded'', sortOrder = desc, nullsFirst = None\<rparr>,
              range_f = Some r,
              ignore_unknown_fields = None,
              preset = None,
              price_conversion = None\<rparr> st2
      in newQueryObj \<lparr>query = d, url = ''https://scanner.tradingview.com/america/scan''\<rparr> st3)"

fun columnName :: "ColumnOrString \<Rightarrow> string" where
  "columnName (ColumnObj col) = name col"
| "columnName (ColumnName col) = col"

definition select :: "ColumnOrString list \<Rightarrow> addr \<Rightarrow> Store \<Rightarrow> Store" where
  "select cols this st = setQueryField this (\<lambda>d. d\<lparr>columns := Some (map columnName cols)\<rparr>) st"


definition where2 :: "OperationDict \<Rightarrow> addr \<Rightarrow> Store \<Rightarrow> Store" where
  "where2 oper this st = setQueryField this (\<lambda>d. d\<lparr>filter2 := Some (op_operation oper)\<rparr>) st"


text \<open>
  \<open>limit\<close> and \<open>offset\<close> write into the array \<open>this.query.range\<close> refers to, whoever else
  refers to it.
\<close>

definition limit :: "int \<Rightarrow> addr \<Rightarrow> Store \<Rightarrow> Store" where
  "limit n this st =
     (let st1 = ensureRange this st
      in case range_f (thisQuery st1 this) of
           None \<Rightarrow> st1
         | Some a \<Rightarrow> st1\<lparr>rangeArrays := (rangeArrays st1)(a := (fst (rangeArrays st1 a), n))\<rparr>)"

definition offset :: "int \<Rightarrow> addr \<Rightarrow> Store \<Rightarrow> Store" where
  "offset n this st =
     (let st1 = ensureRange this st
      in case range_f (thisQuery st1 this) of
           None \<Rightarrow> st1
         | Some a \<Rightarrow> st1\<lparr>rangeArrays := (rangeArrays st1)(a := (n, snd (rangeArrays st1 a)))\<rparr>)"

definition setMarkets :: "string list \<Rightarrow> addr \<Rightarrow> Store \<Rightarrow> Store" where
  "setMarkets mkts this st =
     (case mkts of
        [market] \<Rightarrow>
          setQueryField this (\<lambda>d. d\<lparr>markets := Some [market]\<rparr>)
            (setUrl this (replace URL ''{market}'' market) st)
      | _ \<Rightarrow>
          setQueryField this (\<lambda>d. d\<lparr>markets := Some mkts\<rparr>)
            (setUrl this (replace URL ''{market}'' ''global'') st))"

definition setTickers :: "string list \<Rightarrow> addr \<Rightarrow> Store \<Rightarrow> Store" where
  "setTickers tks this st =
     (let st1 = ensureSymbols this st;
          st2 = (case symbols (thisQuery st1 this) of
                   None \<Rightarrow> st1
                 | Some a \<Rightarrow>
                     st1\<lparr>symbolsObjs := (symbolsObjs st1)(a := (symbolsObjs st1 a)\<lparr>tickers := Some tks\<rparr>)\<rparr>)
      in setMarkets [] this st2)"

definition setIndex :: "string list \<Rightarrow> addr \<Rightarrow> Store \<Rightarrow> Store" where
  "setIndex indexes this st =
     (let st0 = setQueryField this (\<lambda>d. d\<lparr>preset := Some index_components_market_pages\<rparr>) st;
          st1 = ensureSymbols this st0;
          st2 = (case symbols (thisQuery st1 this) of
                   None \<Rightarrow> st1
                 | Some a \<Rightarrow>
                     st1\<lparr>symbolsObjs :=
                           (symbolsObjs st1)(a := (symbolsObjs st1 a)\<lparr>symbolset := Some indexes\<rparr>)\<rparr>)
      in setMarkets [] this st2)"

definition getUrl :: "addr \<Rightarrow> Store \<Rightarrow> string" where
  "getUrl this st = url (queries st this)"

subsection \<open>The document as a value\<close>

text \<open>
  The whole document, with the \<open>symbols\<close> object and the \<open>range\<close> array read at their
  addresses: what the transport is handed, and what the theorems below read.
\<close>

definition snapshot :: "Store \<Rightarrow> addr \<Rightarrow> (SymbolsDict, int \<times> int) QueryDict" where
  "snapshot st a =
     (let d = dicts st a
      in \<lparr>markets = markets d,
          symbols = map_option (symbolsObjs st) (symbols d),
          options = options d,
          columns = columns d,
          filter_f = filter_f d,
          filter2 = filter2 d,
          sort_f = sort_f d,
          range_f = map_option (rangeArrays st) (range_f d),
          ignore_unknown_fields = ignore_unknown_fields d,
          preset = preset d,
          price_conversion = price_conversion d\<rparr>)"

text \<open>The document of a builder as it stands: \<open>this.query\<close>, with all it refers to.\<close>

definition document :: "addr \<Rightarrow> Store \<Rightarrow> (SymbolsDict, int \<times> int) QueryDict" where
  "document this st = snapshot st (query (queries st this))"

subsection \<open>Execution: \<open>getScannerDataRaw\<close> and \<open>getScannerData\<close>\<close>

text \<open>
  The transport (\<open>axios.post\<close>) is not part of the builder: it is a parameter \<open>post\<close>, that
  takes the endpoint, the document and the request configuration, and resolves with a
  response or rejects with a value. It runs on a state of its own, \<open>'net\<close>, so that every
  call of the transport leaves a trace.

  What a \<open>catch\<close> clause can receive is any value. The clause of \<open>getScannerDataRaw\<close> asks
  whether it is an instance of \<open>Error\<close>, and whether it has a property \<open>response\<close> that is
  truthy and an object; these are the cases of \<open>thrown\<close>.
\<close>

record 'a AxiosResponse =
  status :: int
  statusText :: string
  response_data :: 'a

datatype response_property =
    Absent
  | Falsy
  | TruthyNonObject
  | ResponseObject "jsval AxiosResponse"

datatype thrown =
    ErrorInstance (message: string) (response: response_property)
  | BareResponse "jsval AxiosResponse"
  | OtherValue jsval

type_synonym 'net transport =
  "string \<Rightarrow> (SymbolsDict, int \<times> int) QueryDict \<Rightarrow> RequestConfig \<Rightarrow> 'net
     \<Rightarrow> (thrown + ScreenerDict AxiosResponse) \<times> 'net"

text \<open>Assignment to a key of a headers object: in place when the key is there, else at the end.\<close>

definition setHeader :: "string \<Rightarrow> string \<Rightarrow> (string \<times> string) list \<Rightarrow> (string \<times> string) list" where
  "setHeader k v hs =
     (if k \<in> fst ` set hs then map (\<lambda>(k', v'). if k' = k then (k', v) else (k', v')) hs
      else hs @ [(k, v)])"

fun joinCookies :: "(string \<times> string) list \<Rightarrow> string" where
  "joinCookies [] = []"
| "joinCookies [(k, v)] = k @ ''='' @ v"
| "joinCookies ((k, v) # kv # kvs) = k @ ''='' @ v @ ''; '' @ joinCookies (kv # kvs)"

text \<open>
  The request configuration: the merged headers and the default timeout, then every key of
  \<open>config\<close> spread over them, then the \<open>Cookie\<close> header when \<open>config.cookies\<close> is truthy.
\<close>

definition requestConfigOf :: "RequestConfig \<Rightarrow> RequestConfig" where
  "requestConfigOf config =
     (let merged = fold (\<lambda>(k, v). setHeader k v)
                     (case headers config of None \<Rightarrow> [] | Some h \<Rightarrow> h) HEADERS;
          hs = (case headers config of None \<Rightarrow> merged | Some h \<Rightarrow> h);
          tm = (case timeout config of None \<Rightarrow> 20000 | Some t \<Rightarrow> t);
          hs' = (case cookies config of
                   None \<Rightarrow> hs
                 | Some (CookieString c) \<Rightarrow> if c = [] then hs else setHeader ''Cookie'' c hs
                 | Some (CookieDict kvs) \<Rightarrow> setHeader ''Cookie'' (joinCookies kvs) hs)
      in \<lparr>headers = Some hs', timeout = Some tm, cookies = cookies config,
          other_keys = other_keys config\<rparr>)"

text \<open>
  \<open>getScannerDataRaw\<close>. \<open>stringify\<close> is the text that the template literal gets from
  \<open>JSON.stringify\<close> for the body of an error response. The result is the value the promise
  resolves with (\<open>Inr\<close>) or rejects with (\<open>Inl\<close>), the store and the state of the transport.
\<close>

definition getScannerDataRaw ::
  "'net transport \<Rightarrow> (jsval \<Rightarrow> string) \<Rightarrow> RequestConfig \<Rightarrow> addr \<Rightarrow> Store \<Rightarrow> 'net
     \<Rightarrow> (thrown + ScreenerDict) \<times> Store \<times> 'net" where
  "getScannerDataRaw post stringify config this st net =
     (let st1 = ensureRange this st;
          requestConfig = requestConfigOf config;
          (outcome, net1) =
             post (url (queries st1 this)) (document this st1) requestConfig net
      in case outcome of
           Inr response' \<Rightarrow> (Inr (response_data response'), st1, net1)
         | Inl error \<Rightarrow>
             (case error of
                ErrorInstance msg (ResponseObject r) \<Rightarrow>
                  (Inl (ErrorInstance
                          (''HTTP '' @ numberToString (status r) @ '': '' @ statusText r
                           @ [CHR 0x0A] @ ''Body: '' @ stringify (response_data r))
                          Absent),
                   st1, net1)
              | _ \<Rightarrow> (Inl error, st1, net1)))"

text \<open>
  \<open>result[column] = value\<close> on a plain object: an own property, set or added, for every key
  but \<open>__proto__\<close>, which is an accessor of \<open>Object.prototype\<close> and leaves the own
  properties as they are.
\<close>

definition setProp :: "(string \<rightharpoonup> jsval) \<Rightarrow> string \<Rightarrow> jsval \<Rightarrow> (string \<rightharpoonup> jsval)" where
  "setProp obj k v = (if k = ''__proto__'' then obj else obj(k \<mapsto> v))"

text \<open>\<open>row.d[index]\<close>: \<open>undefined\<close> past the end of the array.\<close>

definition elementAt :: "jsval list \<Rightarrow> nat \<Rightarrow> jsval" where
  "elementAt vs i = (if i < length vs then vs ! i else JUndefined)"

fun forEachColumn :: "string list \<Rightarrow> nat \<Rightarrow> jsval list \<Rightarrow> (string \<rightharpoonup> jsval) \<Rightarrow> (string \<rightharpoonup> jsval)" where
  "forEachColumn [] index' d result = result"
| "forEachColumn (column # cols) index' d result =
     forEachColumn cols (Suc index') d (setProp result column (elementAt d index'))"

definition structureRow :: "string list \<Rightarrow> ScreenerRowDict \<Rightarrow> (string \<rightharpoonup> jsval)" where
  "structureRow cols row = forEachColumn cols 0 (row_d row) [''ticker'' \<mapsto> JStr (row_s row)]"

definition getScannerData ::
  "'net transport \<Rightarrow> (jsval \<Rightarrow> string) \<Rightarrow> RequestConfig \<Rightarrow> addr \<Rightarrow> Store \<Rightarrow> 'net
     \<Rightarrow> (thrown + ScreenerDataResult) \<times> Store \<times> 'net" where
  "getScannerData post stringify config this st net =
     (case getScannerDataRaw post stringify config this st net of
        (Inl error, st1, net1) \<Rightarrow> (Inl error, st1, net1)
      | (Inr jsonObj, st1, net1) \<Rightarrow>
          (let rowsCount = totalCount jsonObj
           in case data jsonObj of
                None \<Rightarrow> (Inr \<lparr>totalCount = rowsCount, data = []\<rparr>, st1, net1)
              | Some rows \<Rightarrow>
                  (let cols = (case columns (thisQuery st1 this) of None \<Rightarrow> [] | Some cs \<Rightarrow> cs)
                   in (Inr \<lparr>totalCount = rowsCount, data = map (structureRow cols) rows\<rparr>,
                       st1, net1))))"

section \<open>Examples: a builder, a configuration, two transports\<close>

text \<open>
  The builder \<open>new Query()\<close> in the store of a freshly loaded module, the configuration
  \<open>{}\<close>, a transport that resolves with a given body and one that rejects with a given
  value, each counting its calls, and a stand-in for the text of a body.
\<close>

definition exampleQuery :: addr where
  "exampleQuery = fst (Query_new initialStore)"

definition exampleStore :: Store where
  "exampleStore = snd (Query_new initialStore)"

definition emptyConfig :: RequestConfig where
  "emptyConfig = \<lparr>headers = None, timeout = None, cookies = None, other_keys = []\<rparr>"

definition resolveWith :: "ScreenerDict \<Rightarrow> nat transport" where
  "resolveWith body u doc cfg n =
     (Inr \<lparr>status = 200, statusText = ''OK'', response_data = body\<rparr>, Suc n)"

definition rejectWith :: "thrown \<Rightarrow> nat transport" where
  "rejectWith e u doc cfg n = (Inl e, Suc n)"

fun exampleStringify :: "jsval \<Rightarrow> string" where
  "exampleStringify (JStr t) = [CHR 0x22] @ t @ [CHR 0x22]"
| "exampleStringify (JNum n) = numberToString n"
| "exampleStringify _ = ''null''"

section \<open>Reading the store after a write\<close>

declare digitsOf.simps [simp del]

lemma URL_split:
  "splitAtFirst ''{market}'' URL = Some (''https://scanner.tradingview.com/'', ''/scan'')"
  by (simp add: URL_def)

lemma GetSubstitution_plain: "CHR ''$'' \<notin> set t \<Longrightarrow> GetSubstitution m b a t = t"
  by (induction m b a t rule: GetSubstitution.induct) auto

lemma replace_URL_plain:
  "CHR ''$'' \<notin> set market \<Longrightarrow>
     replace URL ''{market}'' market = ''https://scanner.tradingview.com/'' @ market @ ''/scan''"
  by (simp add: replace_def URL_split GetSubstitution_plain)

lemma replace_URL_global:
  "replace URL ''{market}'' ''global'' = ''https://scanner.tradingview.com/global/scan''"
  using replace_URL_plain [of "''global''"] by simp

lemma replace_URL_matched:
  "replace URL ''{market}'' ''$&'' = ''https://scanner.tradingview.com/{market}/scan''"
  by (simp add: replace_def URL_split)

lemma getUrl_setQueryField [simp]: "getUrl this (setQueryField that f st) = getUrl this st"
  by (simp add: getUrl_def setQueryField_def)

lemma getUrl_setUrl [simp]: "getUrl this (setUrl this u st) = u"
  by (simp add: getUrl_def setUrl_def)

lemma thisQuery_setUrl [simp]: "thisQuery (setUrl that u st) this = thisQuery st this"
  by (simp add: thisQuery_def setUrl_def)

lemma thisQuery_setQueryField [simp]:
  "thisQuery (setQueryField this f st) this = f (thisQuery st this)"
  by (simp add: thisQuery_def setQueryField_def)

lemma markets_document [simp]: "markets (document this st) = markets (thisQuery st this)"
  by (simp add: document_def snapshot_def thisQuery_def Let_def)

lemma getUrl_setMarkets_single:
  "CHR ''$'' \<notin> set market \<Longrightarrow>
     getUrl this (setMarkets [market] this st) = ''https://scanner.tradingview.com/'' @ market @ ''/scan''"
  by (simp add: setMarkets_def replace_URL_plain)

lemma markets_setMarkets [simp]:
  "markets (thisQuery (setMarkets mkts this st) this) = Some mkts"
  by (simp add: setMarkets_def split: list.splits)

lemma getUrl_setMarkets_global:
  "length mkts \<noteq> 1 \<Longrightarrow>
     getUrl this (setMarkets mkts this st) = ''https://scanner.tradingview.com/global/scan''"
  by (cases mkts; cases "tl mkts") (auto simp add: setMarkets_def replace_URL_global)


lemma getUrl_symbols_write [simp]:
  "getUrl this (st\<lparr>symbolsObjs := h\<rparr>) = getUrl this st"
  by (simp add: getUrl_def)

lemma preset_document [simp]: "preset (document this st) = preset (thisQuery st this)"
  by (simp add: document_def snapshot_def thisQuery_def Let_def)

lemma thisQuery_symbols_write [simp]:
  "thisQuery (st\<lparr>symbolsObjs := h\<rparr>) this = thisQuery st this"
  by (simp add: thisQuery_def)

lemma preset_ensureSymbols [simp]:
  "preset (thisQuery (ensureSymbols this st) this) = preset (thisQuery st this)"
  by (simp add: ensureSymbols_def newSymbols_def setQueryField_def thisQuery_def
      split: option.splits)

lemma preset_setMarkets [simp]:
  "preset (thisQuery (setMarkets mkts this st) this) = preset (thisQuery st this)"
  by (simp add: setMarkets_def split: list.splits)

section \<open>Market scope\<close>

text \<open>
  C1. \<open>setMarkets\<close> with one market \<open>m\<close> is claimed to set the endpoint to the text
  \<open>https://scanner.tradingview.com/\<close>, \<open>m\<close>, \<open>/scan\<close>, for every \<open>m\<close>. The markets list is
  \<open>[m]\<close> (\<open>markets_setMarkets\<close>), the endpoint is as claimed for every \<open>m\<close> without a dollar
  sign (\<open>getUrl_setMarkets_single\<close>), and with no market or several the endpoint is the
  one of \<open>global\<close> and the list the arguments (\<open>getUrl_setMarkets_global\<close>). But the market
  goes through \<open>String.prototype.replace\<close> as the replacement text, where a dollar sign
  is read as a pattern: for the market \<^verbatim>\<open>$&\<close> the endpoint is the template itself, with
  \<^verbatim>\<open>{market}\<close> still in it.
\<close>

theorem setMarkets_dollar_pattern:
  "getUrl this (setMarkets [''$&''] this st) = ''https://scanner.tradingview.com/{market}/scan''
   \<and> getUrl this (setMarkets [''$&''] this st) \<noteq> ''https://scanner.tradingview.com/'' @ ''$&'' @ ''/scan''"
  by (simp add: setMarkets_def replace_URL_matched)

text \<open>
  C10. \<open>setTickers\<close> and \<open>setIndex\<close> end in \<open>setMarkets()\<close>: whatever the builder held, the
  endpoint is the one of \<open>global\<close> and the markets list is empty; \<open>setIndex\<close> also sets
  \<open>preset\<close> to \<open>index_components_market_pages\<close>.
\<close>

theorem setTickers_setIndex_reset_markets:
  "getUrl this (setTickers tks this st) = ''https://scanner.tradingview.com/global/scan''
   \<and> markets (document this (setTickers tks this st)) = Some []
   \<and> getUrl this (setIndex indexes this st) = ''https://scanner.tradingview.com/global/scan''
   \<and> markets (document this (setIndex indexes this st)) = Some []
   \<and> preset (document this (setIndex indexes this st)) = Some index_components_market_pages"
  by (simp add: setTickers_def setIndex_def Let_def getUrl_setMarkets_global
      split: option.splits)

section \<open>Filter trees\<close>

text \<open>
  C2. \<open>Or(And(a, b), c)\<close> is the node \<open>or\<close> over the wrapped node \<open>and\<close> of the wrapped leaves
  \<open>a\<close> and \<open>b\<close>, and the wrapped leaf \<open>c\<close>; \<open>where2\<close> stores in \<open>filter2\<close> what is inside the
  wrapper it is given, the node with its operator and operands.
\<close>

theorem Or_And_nesting:
  "Or [Operation (And [Filter a, Filter b]), Filter c] =
     OperationDict (OperationComparisonDict L_or
       [OperandOperation (OperationDict (OperationComparisonDict L_and
          [OperandExpression a, OperandExpression b])),
        OperandExpression c])
   \<and> filter2 (document this (where2 (Or [Operation (And [Filter a, Filter b]), Filter c]) this st)) =
       Some (OperationComparisonDict L_or
         [OperandOperation (OperationDict (OperationComparisonDict L_and
            [OperandExpression a, OperandExpression b])),
          OperandExpression c])
   \<and> filter2 (document this (where2 oper this st)) = Some (op_operation oper)"
  by (simp add: Or_def And_def implAndOrChaining_def where2_def document_def snapshot_def
      setQueryField_def Let_def)

text \<open>
  C3. \<open>And()\<close> and \<open>Or()\<close> with no expression are claimed to fail. They return a node with
  an empty list of operands.
\<close>

theorem And_Or_empty_counterexample:
  "And [] = OperationDict (OperationComparisonDict L_and [])
   \<and> Or [] = OperationDict (OperationComparisonDict L_or [])"
  by (simp add: And_def Or_def implAndOrChaining_def)

text \<open>
  C3, as the code has it: \<open>And\<close> and \<open>Or\<close> return for every list of expressions, the empty
  one too, the node of their operator with one operand for each expression, in order.
\<close>

theorem And_Or_total:
  "operator (op_operation (And expressions)) = L_and
   \<and> operands (op_operation (And expressions)) = map pushOperand expressions
   \<and> operator (op_operation (Or expressions)) = L_or
   \<and> operands (op_operation (Or expressions)) = map pushOperand expressions
   \<and> operands (op_operation (And [])) = []
   \<and> operands (op_operation (Or [])) = []"
  by (simp add: And_def Or_def implAndOrChaining_def)

section \<open>Replacing methods\<close>


section \<open>Execution\<close>

lemma queries_ensureRange [simp]: "queries (ensureRange this st) = queries st"
  by (simp add: ensureRange_def newRange_def setQueryField_def split: option.splits)

lemma columns_ensureRange [simp]:
  "columns (thisQuery (ensureRange this st) this) = columns (thisQuery st this)"
  by (simp add: ensureRange_def newRange_def setQueryField_def thisQuery_def split: option.splits)

lemma columns_document [simp]: "columns (document this st) = columns (thisQuery st this)"
  by (simp add: document_def snapshot_def thisQuery_def Let_def)

lemma getScannerDataRaw_resolved:
  assumes "post (getUrl this st) (document this (ensureRange this st)) (requestConfigOf config) net
             = (Inr resp, net')"
  shows "getScannerDataRaw post stringify config this st net
           = (Inr (response_data resp), ensureRange this st, net')"
  using assms by (simp add: getScannerDataRaw_def getUrl_def Let_def)

lemma getScannerDataRaw_rejected:
  assumes "post (getUrl this st) (document this (ensureRange this st)) (requestConfigOf config) net
             = (Inl e, net')"
  shows "getScannerDataRaw post stringify config this st net =
           ((case e of
               ErrorInstance msg (ResponseObject r) \<Rightarrow>
                 Inl (ErrorInstance
                        (''HTTP '' @ numberToString (status r) @ '': '' @ statusText r
                         @ [CHR 0x0A] @ ''Body: '' @ stringify (response_data r))
                        Absent)
             | _ \<Rightarrow> Inl e),
            ensureRange this st, net')"
  using assms
  by (simp add: getScannerDataRaw_def getUrl_def Let_def split: thrown.splits response_property.splits)



lemma columns_select [simp]:
  "columns (thisQuery (select cols this st) this) = Some (map columnName cols)"
  by (simp add: select_def setQueryField_def thisQuery_def)

lemma getUrl_select [simp]: "getUrl this (select cols that st) = getUrl this st"
  by (simp add: select_def setQueryField_def getUrl_def)

text \<open>
  C5. When the transport resolves with a response whose \<open>data\<close> is missing or empty,
  \<open>getScannerData\<close> resolves, with the \<open>totalCount\<close> of the response, whatever it is, and no
  rows.
\<close>

theorem getScannerData_empty:
  assumes "post (getUrl this st) (document this (ensureRange this st)) (requestConfigOf config) net
             = (Inr resp, net')"
      and "data (response_data resp) = None \<or> data (response_data resp) = Some []"
  shows "fst (getScannerData post stringify config this st net) =
           Inr \<lparr>totalCount = totalCount (response_data resp), data = []\<rparr>"
  using assms(2)
  by (auto simp add: getScannerData_def getScannerDataRaw_resolved [where post = post and this = this and st = st and config = config and net = net, OF assms(1)] Let_def)

theorem getScannerData_empty_witness:
  "fst (getScannerData (resolveWith \<lparr>totalCount = 7, data = None\<rparr>) exampleStringify emptyConfig
          exampleQuery exampleStore 0)
     = Inr \<lparr>totalCount = 7, data = []\<rparr>
   \<and> fst (getScannerData (resolveWith \<lparr>totalCount = 0, data = Some []\<rparr>) exampleStringify emptyConfig
          exampleQuery exampleStore 0)
     = Inr \<lparr>totalCount = 0, data = []\<rparr>"
  using getScannerData_empty [where post = "resolveWith \<lparr>totalCount = 7, data = None\<rparr>"
      and stringify = exampleStringify and config = emptyConfig and this = exampleQuery
      and st = exampleStore and net = 0]
    getScannerData_empty [where post = "resolveWith \<lparr>totalCount = 0, data = Some []\<rparr>"
      and stringify = exampleStringify and config = emptyConfig and this = exampleQuery
      and st = exampleStore and net = 0]
  by (simp add: resolveWith_def)




text \<open>
  What the \<open>catch\<close> clause of \<open>getScannerDataRaw\<close> does with a rejection of the transport.
  For an instance of \<open>Error\<close> that carries a response object, both methods reject with
  one new \<open>Error\<close>, whose message is \<open>HTTP\<close>, the status, the status text, and on a new
  line \<open>Body:\<close> and the JSON text of the body, so that the status and that text occur in
  it. Every other rejected value comes back as it is. In either case the transport has
  run once: its state is the one its single call left.
\<close>

lemma catch_clause_cases:
  assumes "post (getUrl this st) (document this (ensureRange this st)) (requestConfigOf config) net
             = (Inl e, net')"
  shows "(case e of
            ErrorInstance msg (ResponseObject r) \<Rightarrow>
              (\<exists>m. fst (getScannerDataRaw post stringify config this st net) = Inl (ErrorInstance m Absent)
                 \<and> fst (getScannerData post stringify config this st net) = Inl (ErrorInstance m Absent)
                 \<and> m = ''HTTP '' @ numberToString (status r) @ '': '' @ statusText r
                         @ [CHR 0x0A] @ ''Body: '' @ stringify (response_data r)
                 \<and> sublist (numberToString (status r)) m
                 \<and> sublist (stringify (response_data r)) m)
          | _ \<Rightarrow>
              fst (getScannerDataRaw post stringify config this st net) = Inl e
              \<and> fst (getScannerData post stringify config this st net) = Inl e)
         \<and> snd (snd (getScannerDataRaw post stringify config this st net)) = net'
         \<and> snd (snd (getScannerData post stringify config this st net)) = net'"
proof -
  have sub1: "sublist a (p @ a @ q)" for a p q :: string
    by (auto simp add: sublist_def)
  have sub2: "sublist a (p @ a)" for a p :: string
    by (simp add: sublist_def) (metis append_Nil2)
  have m1: "sublist (numberToString n) (''HTTP '' @ numberToString n @ rest)" for n rest
    by (rule sub1)
  have m2: "sublist b (''HTTP '' @ x @ '': '' @ y @ [CHR 0x0A] @ ''Body: '' @ b)" for b x y
    using sub2 [of b "''HTTP '' @ x @ '': '' @ y @ [CHR 0x0A] @ ''Body: ''"] by simp
  show ?thesis
    using m1 m2
    by (simp add: getScannerData_def getScannerDataRaw_rejected [where post = post and this = this and st = st and config = config and net = net, OF assms]
        split: thrown.splits response_property.splits)
qed

text \<open>
  C6. Every response with a status outside 2xx is to surface as an error whose message
  holds the status and the body, and the \<open>catch\<close> clause builds that message, but only
  for an instance of \<open>Error\<close> that carries the response. The module imports its transport
  from \<open>redaxios\<close>, which rejects a response outside 2xx with the response object itself;
  that object is no instance of \<open>Error\<close>, so both methods hand it back as it came: for
  the status 500 and the body \<open>boom\<close> the rejection is the response object, and no message
  with the status or the body is built.
\<close>

theorem bare_response_rethrown:
  "fst (getScannerDataRaw
          (rejectWith (BareResponse \<lparr>status = 500, statusText = ''Internal Server Error'',
                                      response_data = JStr ''boom''\<rparr>))
          exampleStringify emptyConfig exampleQuery exampleStore 0)
     = Inl (BareResponse \<lparr>status = 500, statusText = ''Internal Server Error'',
                           response_data = JStr ''boom''\<rparr>)
   \<and> fst (getScannerData
          (rejectWith (BareResponse \<lparr>status = 500, statusText = ''Internal Server Error'',
                                      response_data = JStr ''boom''\<rparr>))
          exampleStringify emptyConfig exampleQuery exampleStore 0)
     = Inl (BareResponse \<lparr>status = 500, statusText = ''Internal Server Error'',
                           response_data = JStr ''boom''\<rparr>)"
  by (simp add: getScannerData_def getScannerDataRaw_def rejectWith_def Let_def)

section \<open>The range window\<close>

lemma thisQuery_range_write [simp]:
  "thisQuery (st\<lparr>rangeArrays := h\<rparr>) this = thisQuery st this"
  by (simp add: thisQuery_def)

lemma ensureRange_Some:
  "range_f (thisQuery st this) = Some a \<Longrightarrow> ensureRange this st = st"
  by (simp add: ensureRange_def)

lemma ensureRange_None:
  "range_f (thisQuery st this) = None \<Longrightarrow>
     ensureRange this st =
       st\<lparr>rangeArrays := (rangeArrays st)(fresh st := rangeArrays st DEFAULT_RANGE),
          fresh := Suc (fresh st),
          dicts := (dicts st)(query (queries st this) := (thisQuery st this)\<lparr>range_f := Some (fresh st)\<rparr>)\<rparr>"
  by (simp add: ensureRange_def newRange_def setQueryField_def thisQuery_def)

lemma limit_Some:
  "range_f (thisQuery st this) = Some a \<Longrightarrow>
     limit n this st = st\<lparr>rangeArrays := (rangeArrays st)(a := (fst (rangeArrays st a), n))\<rparr>"
  by (simp add: limit_def ensureRange_Some)

lemma offset_Some:
  "range_f (thisQuery st this) = Some a \<Longrightarrow>
     offset m this st = st\<lparr>rangeArrays := (rangeArrays st)(a := (m, snd (rangeArrays st a)))\<rparr>"
  by (simp add: offset_def ensureRange_Some)

lemma range_ensureRange_None:
  "range_f (thisQuery st this) = None \<Longrightarrow>
     range_f (thisQuery (ensureRange this st) this) = Some (fresh st)"
  by (simp add: ensureRange_None thisQuery_def)

lemma limit_None:
  "range_f (thisQuery st this) = None \<Longrightarrow>
     limit n this st =
       (ensureRange this st)\<lparr>rangeArrays :=
          (rangeArrays (ensureRange this st))(fresh st := (fst (rangeArrays st DEFAULT_RANGE), n))\<rparr>"
  by (simp add: limit_def range_ensureRange_None) (simp add: ensureRange_None)

lemma offset_None:
  "range_f (thisQuery st this) = None \<Longrightarrow>
     offset m this st =
       (ensureRange this st)\<lparr>rangeArrays :=
          (rangeArrays (ensureRange this st))(fresh st := (m, snd (rangeArrays st DEFAULT_RANGE)))\<rparr>"
  by (simp add: offset_def range_ensureRange_None) (simp add: ensureRange_None)

lemma limit_offset_commute:
  "offset m this (limit n this st) = limit n this (offset m this st)"
proof (cases "range_f (thisQuery st this)")
  case None
  have l: "range_f (thisQuery (limit n this st) this) = Some (fresh st)"
    by (simp add: limit_None None range_ensureRange_None)
  have r: "range_f (thisQuery (offset m this st) this) = Some (fresh st)"
    by (simp add: offset_None None range_ensureRange_None)
  show ?thesis
    by (simp add: offset_Some [OF l] limit_Some [OF r]) (simp add: limit_None offset_None None)
next
  case (Some a)
  have l: "range_f (thisQuery (limit n this st) this) = Some a"
    by (simp add: limit_Some [OF Some] Some)
  have r: "range_f (thisQuery (offset m this st) this) = Some a"
    by (simp add: offset_Some [OF Some] Some)
  show ?thesis
    by (simp add: offset_Some [OF l] limit_Some [OF r]) (simp add: limit_Some [OF Some] offset_Some [OF Some])
qed

lemma range_document:
  "range_f (document this st) = map_option (rangeArrays st) (range_f (thisQuery st this))"
  by (simp add: document_def snapshot_def thisQuery_def Let_def)

lemma range_limit:
  "range_f (document this (limit n this st)) =
     Some (case range_f (document this st) of
             None \<Rightarrow> (fst (rangeArrays st DEFAULT_RANGE), n)
           | Some r \<Rightarrow> (fst r, n))"
proof (cases "range_f (thisQuery st this)")
  case None
  then show ?thesis
    by (simp add: range_document limit_None range_ensureRange_None)
next
  case (Some a)
  then show ?thesis
    by (simp add: range_document limit_Some [OF Some])
qed

lemma range_offset:
  "range_f (document this (offset m this st)) =
     Some (case range_f (document this st) of
             None \<Rightarrow> (m, snd (rangeArrays st DEFAULT_RANGE))
           | Some r \<Rightarrow> (m, snd r))"
proof (cases "range_f (thisQuery st this)")
  case None
  then show ?thesis
    by (simp add: range_document offset_None range_ensureRange_None)
next
  case (Some a)
  then show ?thesis
    by (simp add: range_document offset_Some [OF Some])
qed

lemma range_offset_limit:
  "range_f (document this (offset m this (limit n this st))) = Some (m, n)"
  by (simp add: range_offset range_limit split: option.splits)

lemma range_addr_limit:
  "range_f (thisQuery (limit n this st) this) =
     Some (case range_f (thisQuery st this) of None \<Rightarrow> fresh st | Some a \<Rightarrow> a)"
  by (cases "range_f (thisQuery st this)")
     (simp_all add: limit_None limit_Some range_ensureRange_None)

lemma range_addr_offset:
  "range_f (thisQuery (offset m this st) this) =
     Some (case range_f (thisQuery st this) of None \<Rightarrow> fresh st | Some a \<Rightarrow> a)"
  by (cases "range_f (thisQuery st this)")
     (simp_all add: offset_None offset_Some range_ensureRange_None)

lemma default_limit:
  "DEFAULT_RANGE < fresh st \<Longrightarrow> range_f (thisQuery st this) \<noteq> Some DEFAULT_RANGE \<Longrightarrow>
     rangeArrays (limit n this st) DEFAULT_RANGE = rangeArrays st DEFAULT_RANGE
     \<and> range_f (thisQuery (limit n this st) this) \<noteq> Some DEFAULT_RANGE
     \<and> DEFAULT_RANGE < fresh (limit n this st)"
  by (cases "range_f (thisQuery st this)")
     (auto simp add: range_addr_limit, auto simp add: limit_None limit_Some ensureRange_None)

lemma default_offset:
  "DEFAULT_RANGE < fresh st \<Longrightarrow> range_f (thisQuery st this) \<noteq> Some DEFAULT_RANGE \<Longrightarrow>
     rangeArrays (offset m this st) DEFAULT_RANGE = rangeArrays st DEFAULT_RANGE
     \<and> range_f (thisQuery (offset m this st) this) \<noteq> Some DEFAULT_RANGE
     \<and> DEFAULT_RANGE < fresh (offset m this st)"
  by (cases "range_f (thisQuery st this)")
     (auto simp add: range_addr_offset, auto simp add: offset_None offset_Some ensureRange_None)

text \<open>
  C8. \<open>limit(n)\<close> then \<open>offset(m)\<close> and \<open>offset(m)\<close> then \<open>limit(n)\<close> leave the same store, in
  which the range is \<open>[m, n]\<close>. \<open>limit\<close> keeps the first component and \<open>offset\<close> the second,
  of the range the document has or, when it has none, of the array \<open>DEFAULT_RANGE\<close>, which
  is \<open>[0, 50]\<close> as the module leaves it. The range a document gets in that case is a new
  array: unless the document was handed \<open>DEFAULT_RANGE\<close> itself, neither method writes
  into the constant, and the document never refers to it.
\<close>

theorem limit_offset_independent:
  "offset m this (limit n this st) = limit n this (offset m this st)
   \<and> range_f (document this (offset m this (limit n this st))) = Some (m, n)
   \<and> range_f (document this (limit n this (offset m this st))) = Some (m, n)
   \<and> range_f (document this (limit n this st)) =
        Some (case range_f (document this st) of
                None \<Rightarrow> (fst (rangeArrays st DEFAULT_RANGE), n)
              | Some r \<Rightarrow> (fst r, n))
   \<and> range_f (document this (offset m this st)) =
        Some (case range_f (document this st) of
                None \<Rightarrow> (m, snd (rangeArrays st DEFAULT_RANGE))
              | Some r \<Rightarrow> (m, snd r))
   \<and> (rangeArrays st DEFAULT_RANGE = (0, 50) \<longrightarrow> range_f (document this st) = None \<longrightarrow>
        range_f (document this (limit n this st)) = Some (0, n)
        \<and> range_f (document this (offset m this st)) = Some (m, 50))
   \<and> (DEFAULT_RANGE < fresh st \<longrightarrow> range_f (thisQuery st this) \<noteq> Some DEFAULT_RANGE \<longrightarrow>
        rangeArrays (limit n this st) DEFAULT_RANGE = rangeArrays st DEFAULT_RANGE
        \<and> rangeArrays (offset m this st) DEFAULT_RANGE = rangeArrays st DEFAULT_RANGE
        \<and> rangeArrays (offset m this (limit n this st)) DEFAULT_RANGE = rangeArrays st DEFAULT_RANGE
        \<and> range_f (thisQuery (limit n this st) this) \<noteq> Some DEFAULT_RANGE
        \<and> range_f (thisQuery (offset m this st) this) \<noteq> Some DEFAULT_RANGE)"
proof -
  have c: "offset m this (limit n this st) = limit n this (offset m this st)"
    by (rule limit_offset_commute)
  have r: "range_f (document this (offset m this (limit n this st))) = Some (m, n)"
    by (rule range_offset_limit)
  have d: "rangeArrays (offset m this (limit n this st)) DEFAULT_RANGE = rangeArrays st DEFAULT_RANGE"
    if "DEFAULT_RANGE < fresh st" "range_f (thisQuery st this) \<noteq> Some DEFAULT_RANGE"
    using default_limit [OF that, of n] default_offset [of "limit n this st" this m] by simp
  show ?thesis
    using c r d range_limit [of this n st] range_offset [of this m st]
      default_limit [of st this n] default_offset [of st this m]
    by simp
qed

theorem limit_offset_independent_witness:
  "range_f (document exampleQuery
      (offset 10 exampleQuery (limit 15 exampleQuery (setQueryField exampleQuery (\<lambda>d. d\<lparr>range_f := None\<rparr>) exampleStore))))
     = Some (10, 15)
   \<and> range_f (document exampleQuery (limit 15 exampleQuery (setQueryField exampleQuery (\<lambda>d. d\<lparr>range_f := None\<rparr>) exampleStore)))
     = Some (0, 15)
   \<and> range_f (document exampleQuery (offset 10 exampleQuery (setQueryField exampleQuery (\<lambda>d. d\<lparr>range_f := None\<rparr>) exampleStore)))
     = Some (10, 50)
   \<and> rangeArrays (offset 10 exampleQuery (limit 15 exampleQuery
        (setQueryField exampleQuery (\<lambda>d. d\<lparr>range_f := None\<rparr>) exampleStore))) DEFAULT_RANGE = (0, 50)"
proof -
  define st0 where "st0 = setQueryField exampleQuery (\<lambda>d. d\<lparr>range_f := None\<rparr>) exampleStore"
  have d: "rangeArrays st0 DEFAULT_RANGE = (0, 50)"
    by (simp add: st0_def exampleStore_def Query_new_def initialStore_def newSymbols_def
        newRange_def newDict_def newQueryObj_def DEFAULT_RANGE_def setQueryField_def)
  have f: "DEFAULT_RANGE < fresh st0"
    by (simp add: st0_def exampleStore_def Query_new_def initialStore_def newSymbols_def
        newRange_def newDict_def newQueryObj_def DEFAULT_RANGE_def setQueryField_def)
  have n: "range_f (thisQuery st0 exampleQuery) = None"
    by (simp add: st0_def thisQuery_def setQueryField_def)
  have n': "range_f (document exampleQuery st0) = None"
    using n by (simp add: range_document)
  have n'': "range_f (thisQuery st0 exampleQuery) \<noteq> Some DEFAULT_RANGE"
    using n by simp
  show ?thesis
    unfolding st0_def [symmetric]
    using limit_offset_independent [of 10 exampleQuery 15 st0] d f n' n''
    by metis
qed

end
